theory Spec2Isabelle
  imports Complex_Main
begin

section \<open>Data model of the player-analysis page\<close>

text \<open>
  The page works on pandas data frames. A float column is a list of cells, where
  \<open>None\<close> is the missing value NaN; the \<open>timestamp\<close> column is a datetime column, a
  cell being the number of nanoseconds since the epoch, with \<open>None\<close> for NaT. Float
  arithmetic is idealised to the reals. Columns of other kinds (\<open>player_id\<close>,
  \<open>date\<close>) are not read by the functions below and live in the record's extension.
  \<open>n_rows\<close> is \<open>len(df)\<close>; the functions below read it and the columns separately
  and never rely on the two agreeing. On frames of this shape the metrics helper has no
  failing operation, so it is a total function and returns a record on every input.
\<close>

type_synonym float_series = "real option list"
type_synonym datetime_series = "int option list"

record dataframe =
  n_rows :: nat
  float_columns :: "string \<rightharpoonup> float_series"
  timestamp_column :: "datetime_series option"

text \<open>\<open>Series.max()\<close> and \<open>Series.min()\<close> skip missing cells and yield the missing
  value when no cell is defined.\<close>

fun series_max :: "('a::linorder) option list \<Rightarrow> 'a option" where
  "series_max [] = None"
| "series_max (None # xs) = series_max xs"
| "series_max (Some x # xs) =
     (case series_max xs of None \<Rightarrow> Some x | Some m \<Rightarrow> Some (max x m))"

fun series_min :: "('a::linorder) option list \<Rightarrow> 'a option" where
  "series_min [] = None"
| "series_min (None # xs) = series_min xs"
| "series_min (Some x # xs) =
     (case series_min xs of None \<Rightarrow> Some x | Some m \<Rightarrow> Some (min x m))"

text \<open>Decimal rendering of a natural number, as an f-string does it.\<close>

definition digit_char :: "nat \<Rightarrow> char" where
  "digit_char d = ''0123456789'' ! (d mod 10)"

fun str_nat :: "nat \<Rightarrow> string" where
  "str_nat n =
     (if n < 10 then [digit_char n]
      else str_nat (n div 10) @ [digit_char (n mod 10)])"

declare str_nat.simps [simp del]

definition window_sizes :: "nat list" where
  "window_sizes = [5, 10, 20, 30]"

definition col_name :: "nat \<Rightarrow> string" where
  "col_name window_size = ''intensity_'' @ str_nat window_size @ ''s''"

definition window_label :: "nat \<Rightarrow> string" where
  "window_label window_size = str_nat window_size @ ''s''"

section \<open>The centralised MDP metrics helper\<close>

record data_quality =
  coverage :: real
  samples :: nat

record mdp_metrics =
  mdp_5 :: "real option"
  mdp_10 :: "real option"
  mdp_20 :: "real option"
  mdp_30 :: "real option"
  mdp_peak_value :: "real option"
  mdp_peak_window :: "string option"
  data_quality :: data_quality
  has_peak_data :: bool

text \<open>The body of the first loop: the maximum of a window's column when the column
  exists and has a defined cell.\<close>

definition window_mdp :: "dataframe \<Rightarrow> nat \<Rightarrow> real option" where
  "window_mdp df window_size =
     (case float_columns df (col_name window_size) of
        Some column \<Rightarrow> series_max column
      | None \<Rightarrow> None)"

text \<open>The entry \<open>metrics['mdp_<w>']\<close> for a window size of the loop.\<close>

definition mdp_of :: "mdp_metrics \<Rightarrow> nat \<Rightarrow> real option" where
  "mdp_of metrics window_size =
     (if window_size = 5 then mdp_5 metrics
      else if window_size = 10 then mdp_10 metrics
      else if window_size = 20 then mdp_20 metrics
      else if window_size = 30 then mdp_30 metrics
      else None)"

text \<open>\<open>[v for v in [...] if v is not None]\<close>\<close>

definition peak_values :: "real option list \<Rightarrow> real list" where
  "peak_values vs = List.map_filter id vs"

text \<open>\<open>max(peak_values)\<close>: the largest element, scanning left to right; on an empty
  list Python raises \<open>ValueError\<close>, rendered as \<open>None\<close>. The page calls it only under
  the guard \<open>if peak_values\<close>.\<close>

fun py_max :: "real list \<Rightarrow> real option" where
  "py_max [] = None"
| "py_max (v # vs) = Some (foldl max v vs)"

text \<open>The second loop: the first window size, in the order 5, 10, 20, 30, whose peak
  equals the overall peak; the loop breaks there. A loop that ran through without a match
  would leave the key unset, which is \<open>None\<close> here; \<open>overall_peak_characterisation\<close>
  below shows that a match is always found.\<close>

definition peak_window :: "mdp_metrics \<Rightarrow> real \<Rightarrow> string option" where
  "peak_window metrics peak =
     map_option window_label
       (find (\<lambda>window_size. mdp_of metrics window_size = Some peak) window_sizes)"

text \<open>\<open>(session_end - session_start).total_seconds()\<close>; with a missing end point the
  difference is NaT and its \<open>total_seconds()\<close> is NaN.\<close>

definition total_seconds :: "int option \<Rightarrow> int option \<Rightarrow> real option" where
  "total_seconds session_end session_start =
     (case (session_end, session_start) of
        (Some e, Some s) \<Rightarrow> Some (real_of_int (e - s) / 1000000000)
      | _ \<Rightarrow> None)"

text \<open>The data-quality block. A comparison with NaN is false, so a NaN span takes the
  \<open>else 100\<close> arm of the conditional expression.\<close>

definition pct_coverage :: "dataframe \<Rightarrow> real" where
  "pct_coverage df =
     (let samples_available = n_rows df in
      case (timestamp_column df, samples_available > 1) of
        (Some ts, True) \<Rightarrow>
          (let session_start = series_min ts;
               session_end = series_max ts;
               pct = (case total_seconds session_end session_start of
                        Some secs \<Rightarrow>
                          if secs > 0 then (real samples_available / max 1 secs) * 100
                          else 100
                      | None \<Rightarrow> 100)
           in min 100 pct)
      | _ \<Rightarrow> (if samples_available > 0 then 100 else 0))"

text \<open>The record returned for an empty input.\<close>

definition empty_metrics :: mdp_metrics where
  "empty_metrics =
     \<lparr>mdp_5 = None, mdp_10 = None, mdp_20 = None, mdp_30 = None,
      mdp_peak_value = None, mdp_peak_window = None,
      data_quality = \<lparr>coverage = 0, samples = 0\<rparr>, has_peak_data = False\<rparr>"

text \<open>The overall-peak block, on the dictionary that holds the four window peaks.\<close>

definition find_overall_peak :: "mdp_metrics \<Rightarrow> mdp_metrics" where
  "find_overall_peak metrics =
     (case py_max (peak_values [mdp_5 metrics, mdp_10 metrics, mdp_20 metrics, mdp_30 metrics]) of
        Some peak \<Rightarrow>
          metrics\<lparr>mdp_peak_value := Some peak, mdp_peak_window := peak_window metrics peak\<rparr>
      | None \<Rightarrow> metrics\<lparr>mdp_peak_value := None, mdp_peak_window := None\<rparr>)"

definition compute_player_mdp_metrics :: "dataframe option \<Rightarrow> mdp_metrics" where
  "compute_player_mdp_metrics player_session_df =
     (case player_session_df of
        None \<Rightarrow> empty_metrics
      | Some df \<Rightarrow>
          if n_rows df = 0 then empty_metrics
          else
            let metrics = empty_metrics
                  \<lparr>mdp_5 := window_mdp df 5, mdp_10 := window_mdp df 10,
                   mdp_20 := window_mdp df 20, mdp_30 := window_mdp df 30\<rparr>;
                metrics = find_overall_peak metrics;
                metrics = metrics
                  \<lparr>data_quality := \<lparr>coverage = pct_coverage df, samples = n_rows df\<rparr>\<rparr>
            in metrics
                 \<lparr>has_peak_data :=
                    list_ex (\<lambda>v. v \<noteq> None)
                      [mdp_5 metrics, mdp_10 metrics, mdp_20 metrics, mdp_30 metrics]\<rparr>)"

section \<open>Example sessions\<close>

definition tied_session :: dataframe where
  "tied_session =
     \<lparr>n_rows = 3,
      float_columns =
        [''intensity_5s'' \<mapsto> [Some 1, None, Some 3],
         ''intensity_10s'' \<mapsto> [None, Some 3, Some 2],
         ''intensity_30s'' \<mapsto> [None, None, None]],
      timestamp_column = Some [Some 0, Some 1000000000, Some 4000000000]\<rparr>"

definition short_session :: dataframe where
  "short_session =
     \<lparr>n_rows = 6,
      float_columns =
        [''intensity_5s'' \<mapsto> [None, None, None, None, Some 2, Some 4],
         ''intensity_10s'' \<mapsto> [None, None, None, None, None, None],
         ''intensity_30s'' \<mapsto> [None, None, None, None, None, None]],
      timestamp_column = None\<rparr>"

definition no_rows :: dataframe where
  "no_rows =
     \<lparr>n_rows = 0,
      float_columns = [''intensity_5s'' \<mapsto> [], ''intensity_10s'' \<mapsto> []],
      timestamp_column = Some []\<rparr>"

definition burst_session :: dataframe where
  "burst_session =
     \<lparr>n_rows = 2,
      float_columns = [''intensity_5s'' \<mapsto> [Some 7, Some 9]],
      timestamp_column = Some [Some 5000000000, Some 5000000000]\<rparr>"


section \<open>Early, mid and late trend\<close>

text \<open>
  A row of the coach metrics table is a pandas Series: labelled cells, a cell being a float
  or the missing value. \<open>row.get(key)\<close> yields \<open>None\<close> for an absent label, and both
  \<open>None\<close> and NaN fail \<open>pd.notna\<close>, so the two are one case here.
\<close>

type_synonym metrics_row = "(string \<times> real option) list"

definition row_get :: "metrics_row \<Rightarrow> string \<Rightarrow> real option" where
  "row_get row key = (case map_of row key of None \<Rightarrow> None | Some cell \<Rightarrow> cell)"

datatype trend_label = Increasing | Decreasing | Stable

text \<open>
  The cells of a row are Python floats, that is doubles. A double is a real number and
  comparisons of doubles are exact, but subtraction, division and multiplication each
  round their result to a double. The three rounded operations are parameters of the
  model, so what is proved of it holds for the rounding of doubles as for any other.
\<close>

record float_ops =
  fsub :: "real \<Rightarrow> real \<Rightarrow> real"
  fdiv :: "real \<Rightarrow> real \<Rightarrow> real"
  fmul :: "real \<Rightarrow> real \<Rightarrow> real"

text \<open>
  \<open>render_early_mid_late_trend\<close> returns the dictionary \<open>trend_data\<close> and writes the
  interpretation into a caption; the model returns both. The branch is taken on the
  \<open>trend_pct\<close> the function has computed, the same value it returns in \<open>trend_data\<close>.
  The three metric tiles and the headings it also draws carry no computed value and are
  left out.
\<close>

definition render_early_mid_late_trend ::
  "float_ops \<Rightarrow> metrics_row option \<Rightarrow> (string \<times> real) list \<times> trend_label option" where
  "render_early_mid_late_trend ops metrics_row =
     (case metrics_row of
        None \<Rightarrow> ([], None)
      | Some row \<Rightarrow>
          if row = [] then ([], None)
          else
            let early_mp = row_get row ''early_mp'';
                mid_mp = row_get row ''mid_mp'';
                late_mp = row_get row ''late_mp''
            in if list_all (\<lambda>x. x = None) [early_mp, mid_mp, late_mp] then ([], None)
               else
                 (case (early_mp, late_mp) of
                    (Some early, Some late) \<Rightarrow>
                      if early > 0 then
                        let trend_change = fsub ops late early;
                            trend_pct = fmul ops (fdiv ops trend_change early) 100
                        in ([(''trend_change'', trend_change), (''trend_pct'', trend_pct)],
                            Some (if trend_pct > 5 then Increasing
                                  else if trend_pct < - 5 then Decreasing
                                  else Stable))
                      else ([], None)
                  | _ \<Rightarrow> ([], None)))"

text \<open>
  The doubles' operations: the exact result, rounded to the nearest double, a tie going to
  the even significand. A non-zero \<open>x\<close> with \<open>2^k \<le> |x| < 2^(k+1)\<close> is rounded to a
  multiple of \<open>2^(k-52)\<close>. Overflow and subnormal numbers are not modelled; the values
  met below are far from both.
\<close>

definition round_half_even :: "real \<Rightarrow> int" where
  "round_half_even y =
     (let f = \<lfloor>y\<rfloor>
      in if y - of_int f < 1 / 2 then f
         else if y - of_int f > 1 / 2 then f + 1
         else if even f then f else f + 1)"

definition round_double :: "real \<Rightarrow> real" where
  "round_double x =
     (if x = 0 then 0
      else let e = \<lfloor>log 2 \<bar>x\<bar>\<rfloor> - 52
           in of_int (round_half_even (x / 2 powr of_int e)) * 2 powr of_int e)"

definition double_ops :: float_ops where
  "double_ops =
     \<lparr>fsub = (\<lambda>a b. round_double (a - b)),
      fdiv = (\<lambda>a b. round_double (a / b)),
      fmul = (\<lambda>a b. round_double (a * b))\<rparr>"

text \<open>
  Three rows on which every intermediate result is a dyadic number of few bits (8, 0.125
  and 12.5; 2, 0.03125 and 3.125), and a row at the threshold: the doubles nearest to 61.4
  and 64.47.
\<close>

definition rising_row :: metrics_row where
  "rising_row = [(''early_mp'', Some 64), (''mid_mp'', None), (''late_mp'', Some 72)]"

definition fading_row :: metrics_row where
  "fading_row = [(''early_mp'', Some 64), (''mid_mp'', Some 60), (''late_mp'', Some 56)]"

definition steady_row :: metrics_row where
  "steady_row = [(''early_mp'', Some 64), (''late_mp'', Some 66)]"

definition threshold_row :: metrics_row where
  "threshold_row =
     [(''early_mp'', Some (round_double 61.4)), (''late_mp'', Some (round_double 64.47))]"

section \<open>Intensity classification\<close>

text \<open>
  Modelled from the spec: \<open>classify_intensity_from_percentile\<close> of
  \<open>src/intensity_classification.py\<close>, a module of the repository whose source is not
  among the files at hand (only its tests and the summary of its thresholds are). The
  spec's boundaries: below 25 Easy, from 25 to below 60 Medium, from 60 to below 85 Hard,
  85 and above Very Hard.
\<close>

definition classify_intensity_from_percentile :: "real \<Rightarrow> string" where
  "classify_intensity_from_percentile percentile =
     (if percentile < 25 then ''Easy''
      else if percentile < 60 then ''Medium''
      else if percentile < 85 then ''Hard''
      else ''Very Hard'')"

section \<open>Session intensity on the player page\<close>

text \<open>
  The page computes the session intensity from the raw data frame once, before any widget
  is drawn. \<open>st.warning\<close> is the page's notice channel; the model collects the notices.
  \<open>calculate_intensity_and_windows\<close> belongs to the module \<open>utils\<close>, whose source is not
  at hand: it is a parameter here, returning an error or the pair it returns in Python.
  The warning's text is given without its leading pictograph.
\<close>

datatype notice = Warning string

definition required_cols :: "string list" where
  "required_cols = [''speed'', ''acc'', ''hr'', ''mp'']"

definition available_cols :: "dataframe \<Rightarrow> string list" where
  "available_cols raw_df = filter (\<lambda>col. float_columns raw_df col \<noteq> None) required_cols"

definition compute_session_intensity ::
  "(dataframe \<Rightarrow> real \<Rightarrow> real \<Rightarrow> real \<Rightarrow> real \<Rightarrow> string list \<Rightarrow> 'e + dataframe \<times> 'a)
   \<Rightarrow> dataframe \<Rightarrow> 'e + dataframe \<times> notice list" where
  "compute_session_intensity calculate_intensity_and_windows raw_df =
     (if length (available_cols raw_df) \<ge> 3 then
        (case calculate_intensity_and_windows raw_df 0.25 0.25 0.25 0.25
                (available_cols raw_df) of
           Inl err \<Rightarrow> Inl err
         | Inr (session_data, _) \<Rightarrow> Inr (session_data, []))
      else
        Inr (raw_df,
             [Warning ''Not all intensity columns available. Using raw data directly.'']))"

definition two_signal_frame :: dataframe where
  "two_signal_frame =
     \<lparr>n_rows = 2,
      float_columns = [''speed'' \<mapsto> [Some 3, Some 4], ''hr'' \<mapsto> [Some 120, None]],
      timestamp_column = None\<rparr>"

definition three_signal_frame :: dataframe where
  "three_signal_frame =
     \<lparr>n_rows = 1,
      float_columns = [''speed'' \<mapsto> [Some 3], ''acc'' \<mapsto> [Some 1], ''mp'' \<mapsto> [Some 9]],
      timestamp_column = None\<rparr>"

text \<open>A stand-in for the absent callee, used at concrete inputs only: it hands the frame
  back together with the columns it was given.\<close>

definition echo_calculate ::
  "dataframe \<Rightarrow> real \<Rightarrow> real \<Rightarrow> real \<Rightarrow> real \<Rightarrow> string list \<Rightarrow> unit + dataframe \<times> string list" where
  "echo_calculate df w_speed w_acc w_hr w_mp columns_to_plot = Inr (df, columns_to_plot)"

section \<open>Composite intensity\<close>

text \<open>The weight of a signal column, from the four keyword arguments of the call.\<close>

definition signal_weight :: "real \<Rightarrow> real \<Rightarrow> real \<Rightarrow> real \<Rightarrow> string \<Rightarrow> real" where
  "signal_weight w_speed w_acc w_hr w_mp col =
     (if col = ''speed'' then w_speed
      else if col = ''acc'' then w_acc
      else if col = ''hr'' then w_hr
      else if col = ''mp'' then w_mp
      else 0)"

text \<open>
  Modelled from the spec: the composite formed inside \<open>calculate_intensity_and_windows\<close>
  (module \<open>utils\<close>, not among the sources). The spec: the combination is linear,
  \<open>intensity_raw = w_speed*norm(speed) + w_acc*norm(acc) + w_hr*norm(hr) + w_mp*norm(mp)\<close>,
  and when fewer than the full signal set is available the remaining weights are
  renormalized proportionally. The argument \<open>normed\<close> gives the normalised value of each
  signal at one sample.
\<close>

definition renormalized_weight :: "(string \<Rightarrow> real) \<Rightarrow> string list \<Rightarrow> string \<Rightarrow> real" where
  "renormalized_weight w available col =
     (if col \<in> set available then w col / sum_list (map w available) else 0)"

definition intensity_raw :: "(string \<Rightarrow> real) \<Rightarrow> string list \<Rightarrow> (string \<Rightarrow> real) \<Rightarrow> real" where
  "intensity_raw w available normed =
     sum_list (map (\<lambda>col. renormalized_weight w available col * normed col) available)"

text \<open>The alternative the spec rules out: the original weights, the missing terms zero.\<close>

definition zero_filled_raw :: "(string \<Rightarrow> real) \<Rightarrow> string list \<Rightarrow> (string \<Rightarrow> real) \<Rightarrow> real" where
  "zero_filled_raw w available normed = sum_list (map (\<lambda>col. w col * normed col) available)"

section \<open>Session intensity index\<close>

text \<open>
  The weights of the three sub-scores, as the class \<open>IntensityWeights\<close> holds them.
\<close>

record IntensityWeights =
  w_explosiveness :: real
  w_repeatability :: real
  w_volume :: real

text \<open>
  \<open>get_session_intensity_df\<close> of the session explorer: it loads the raw data, builds the
  weights from its three keyword parameters and calls the scorer. A parameter the caller
  leaves out is \<open>None\<close> here and takes the default of the signature, 0.30, 0.50 and
  0.20. The loader (\<open>pd.read_csv\<close>) and the scorer are parameters; a failed load is
  passed on.
\<close>

definition get_session_intensity_df ::
  "(string \<Rightarrow> 'e + 'raw) \<Rightarrow> ('raw \<Rightarrow> IntensityWeights \<Rightarrow> 'df)
   \<Rightarrow> string \<Rightarrow> real option \<Rightarrow> real option \<Rightarrow> real option \<Rightarrow> 'e + 'df" where
  "get_session_intensity_df load_raw_data build_session_intensity_df
       raw_path w_explosiveness_arg w_repeatability_arg w_volume_arg =
     (case load_raw_data raw_path of
        Inl err \<Rightarrow> Inl err
      | Inr raw \<Rightarrow>
          let weights =
                \<lparr>w_explosiveness =
                   (case w_explosiveness_arg of None \<Rightarrow> 0.30 | Some w \<Rightarrow> w),
                 w_repeatability =
                   (case w_repeatability_arg of None \<Rightarrow> 0.50 | Some w \<Rightarrow> w),
                 w_volume =
                   (case w_volume_arg of None \<Rightarrow> 0.20 | Some w \<Rightarrow> w)\<rparr>
          in Inr (build_session_intensity_df raw weights))"

text \<open>
  A raw sample, with the columns the scorer reads: the player, the session's date and the
  metabolic power. The samples of a data set are in time order.
\<close>

record sample =
  player_id :: string
  date :: string
  mp :: real

text \<open>
  Modelled from the spec: the rolling-window aggregator of the module
  \<open>mp_intensity_pipeline\<close>, which is not among the sources. Spec section 4.1: each
  position holds the mean of the trailing \<open>w\<close> samples ending at that position, and a
  position with fewer than \<open>w\<close> samples up to it holds the undefined marker.
\<close>

definition rolling_mean :: "nat \<Rightarrow> real list \<Rightarrow> real option list" where
  "rolling_mean w xs =
     map (\<lambda>i. if w \<le> i + 1 then Some (sum_list (take w (drop (i + 1 - w) xs)) / real w)
               else None)
       [0..<length xs]"

text \<open>
  Modelled from the spec: the peak value of \<open>compute_mdp\<close> (module
  \<open>mp_intensity_pipeline\<close>, not among the sources). Spec section 4.2: undefined values
  are dropped before the search, the result is \<open>None\<close> when nothing is left, and the
  peak is the maximum otherwise.
\<close>

definition compute_mdp :: "real list \<Rightarrow> nat \<Rightarrow> real option" where
  "compute_mdp series window_length = series_max (rolling_mean window_length series)"

text \<open>
  Modelled from the spec: the team z-score of spec sections 4.3 and 4.4 (module
  \<open>mp_intensity_pipeline\<close>, not among the sources): value minus team mean, over team
  standard deviation; 0 when that deviation is zero; undefined for a team of one. The
  spec leaves open whether the deviation divides by \<open>n\<close> or by \<open>n - 1\<close>; \<open>ddof\<close> is
  that choice.
\<close>

definition mean :: "real list \<Rightarrow> real" where
  "mean xs = sum_list xs / real (length xs)"

definition team_stddev :: "nat \<Rightarrow> real list \<Rightarrow> real" where
  "team_stddev ddof xs =
     sqrt (sum_list (map (\<lambda>x. (x - mean xs)\<^sup>2) xs) / real (length xs - ddof))"

definition z_score :: "nat \<Rightarrow> real list \<Rightarrow> real \<Rightarrow> real option" where
  "z_score ddof team v =
     (if length team < 2 then None
      else if team_stddev ddof team = 0 then Some 0
      else Some ((v - mean team) / team_stddev ddof team))"

text \<open>
  Modelled from the spec: \<open>build_session_intensity_df\<close> of the module
  \<open>mp_intensity_pipeline\<close>, which is not among the sources. Spec sections 3 and 4.3: the
  samples of one player on one date form a session; explosiveness is the 10s MDP,
  repeatability the average of the 20s and 30s MDPs, volume the sum of the power signal;
  each sub-score becomes a z-score relative to the sessions of the same date, and the
  index is the weighted sum of the three z-scores. Windows are counted in samples. The
  columns carry the names the session explorer reads, the peaks with a prefix.
\<close>

record session_intensity =
  session_player :: string
  session_date :: string
  session_mdp_10 :: "real option"
  session_mdp_20 :: "real option"
  session_mdp_30 :: "real option"
  total_mp_load :: real
  explosiveness_z :: "real option"
  repeatability_z :: "real option"
  volume_z :: "real option"
  session_intensity_index :: "real option"

definition session_keys :: "sample list \<Rightarrow> (string \<times> string) list" where
  "session_keys raw = remdups (map (\<lambda>s. (player_id s, date s)) raw)"

definition session_mp :: "sample list \<Rightarrow> string \<times> string \<Rightarrow> real list" where
  "session_mp raw key = map mp (filter (\<lambda>s. (player_id s, date s) = key) raw)"

definition explosiveness :: "real list \<Rightarrow> real option" where
  "explosiveness series = compute_mdp series 10"

definition repeatability :: "real list \<Rightarrow> real option" where
  "repeatability series =
     (case (compute_mdp series 20, compute_mdp series 30) of
        (Some a, Some b) \<Rightarrow> Some ((a + b) / 2)
      | _ \<Rightarrow> None)"

definition volume :: "real list \<Rightarrow> real option" where
  "volume series = Some (sum_list series)"

text \<open>The defined values of a sub-score over the sessions of one date.\<close>

definition team_values ::
  "sample list \<Rightarrow> (real list \<Rightarrow> real option) \<Rightarrow> string \<Rightarrow> real list" where
  "team_values raw sub_score d =
     List.map_filter (\<lambda>key. sub_score (session_mp raw key))
       (filter (\<lambda>key. snd key = d) (session_keys raw))"

definition sub_score_z ::
  "nat \<Rightarrow> sample list \<Rightarrow> (real list \<Rightarrow> real option) \<Rightarrow> string \<times> string \<Rightarrow> real option" where
  "sub_score_z ddof raw sub_score key =
     (case sub_score (session_mp raw key) of
        None \<Rightarrow> None
      | Some v \<Rightarrow> z_score ddof (team_values raw sub_score (snd key)) v)"

definition weighted_index ::
  "IntensityWeights \<Rightarrow> real option \<Rightarrow> real option \<Rightarrow> real option \<Rightarrow> real option" where
  "weighted_index weights z_e z_r z_v =
     (case (z_e, z_r, z_v) of
        (Some e, Some r, Some v) \<Rightarrow>
          Some (w_explosiveness weights * e + w_repeatability weights * r
                + w_volume weights * v)
      | _ \<Rightarrow> None)"

definition score_session ::
  "nat \<Rightarrow> sample list \<Rightarrow> IntensityWeights \<Rightarrow> string \<times> string \<Rightarrow> session_intensity" where
  "score_session ddof raw weights key =
     (let series = session_mp raw key;
          z_e = sub_score_z ddof raw explosiveness key;
          z_r = sub_score_z ddof raw repeatability key;
          z_v = sub_score_z ddof raw volume key
      in \<lparr>session_player = fst key, session_date = snd key,
          session_mdp_10 = compute_mdp series 10,
          session_mdp_20 = compute_mdp series 20,
          session_mdp_30 = compute_mdp series 30,
          total_mp_load = sum_list series,
          explosiveness_z = z_e, repeatability_z = z_r, volume_z = z_v,
          session_intensity_index = weighted_index weights z_e z_r z_v\<rparr>)"

definition build_session_intensity_df ::
  "nat \<Rightarrow> sample list \<Rightarrow> IntensityWeights \<Rightarrow> session_intensity list" where
  "build_session_intensity_df ddof raw weights =
     map (score_session ddof raw weights) (session_keys raw)"

text \<open>
  A fixture of two players on one date, thirty samples each: a steady player at power 1,
  and a player with a burst of ten samples at power 2, ten at rest and ten at power 1.
  Both have the same load and the same 20s and 30s peaks; only the 10s peak differs.
\<close>

definition steady_samples :: "sample list" where
  "steady_samples =
     replicate 30 \<lparr>player_id = ''A'', date = ''2025-01-01'', mp = 1\<rparr>"

definition burst_samples :: "sample list" where
  "burst_samples =
     replicate 10 \<lparr>player_id = ''B'', date = ''2025-01-01'', mp = 2\<rparr>
     @ replicate 10 \<lparr>player_id = ''B'', date = ''2025-01-01'', mp = 0\<rparr>
     @ replicate 10 \<lparr>player_id = ''B'', date = ''2025-01-01'', mp = 1\<rparr>"

definition fixture_raw :: "sample list" where
  "fixture_raw = steady_samples @ burst_samples"

datatype load_error = FileNotFoundError

definition fixture_files :: "string \<Rightarrow> load_error + sample list" where
  "fixture_files raw_path =
     (if raw_path = ''full_players_df.csv'' then Inr fixture_raw else Inl FileNotFoundError)"

section \<open>Facts about the series operations\<close>

lemma col_name_simps:
  "col_name 5 = ''intensity_5s''" "col_name 10 = ''intensity_10s''"
  "col_name 20 = ''intensity_20s''" "col_name 30 = ''intensity_30s''"
  by (simp_all add: col_name_def str_nat.simps digit_char_def)

lemma window_label_simps:
  "window_label 5 = ''5s''" "window_label 10 = ''10s''"
  "window_label 20 = ''20s''" "window_label 30 = ''30s''"
  by (simp_all add: window_label_def str_nat.simps digit_char_def)

lemma series_max_None_iff: "series_max xs = None \<longleftrightarrow> (\<forall>c\<in>set xs. c = None)"
  by (induction xs rule: series_max.induct) (auto split: option.splits)

lemma defined_cells_Cons_Some: "{x. Some x \<in> set (Some a # xs)} = insert a {x. Some x \<in> set xs}"
  by auto

lemma defined_cells_Cons_None: "{x. Some x \<in> set (None # xs)} = {x. Some x \<in> set xs}"
  by auto

lemma finite_defined_cells: "finite {x. Some x \<in> set xs}"
proof -
  have "{x. Some x \<in> set xs} = the ` (set xs \<inter> range Some)" by force
  then show ?thesis by simp
qed

lemma series_max_Some: "series_max xs = Some m \<Longrightarrow> m = Max {x. Some x \<in> set xs}"
proof (induction xs arbitrary: m rule: series_max.induct)
  case 1
  then show ?case by simp
next
  case (2 xs)
  then show ?case by (simp add: defined_cells_Cons_None)
next
  case (3 x xs)
  let ?S = "{y. Some y \<in> set xs}"
  have eq: "{y. Some y \<in> set (Some x # xs)} = insert x ?S" by auto
  show ?case
  proof (cases "series_max xs")
    case None
    then have "?S = {}" by (auto simp: series_max_None_iff)
    moreover from 3 None have "m = x" by simp
    ultimately show ?thesis unfolding eq by simp
  next
    case (Some k)
    then have ne: "?S \<noteq> {}"
      using series_max_None_iff [of xs] by auto
    from Some 3 have k: "k = Max ?S" by simp
    from 3 Some have m: "m = max x k" by simp
    have "Max (insert x ?S) = max x (Max ?S)"
      using ne finite_defined_cells [of xs] by (rule_tac Max_insert) auto
    with m k show ?thesis unfolding eq by simp
  qed
qed

lemma foldl_max_eq: "foldl max (v::real) vs = Max (set (v # vs))"
proof (induction vs arbitrary: v)
  case Nil
  then show ?case by simp
next
  case (Cons a vs)
  have "foldl max v (a # vs) = Max (set (max v a # vs))" using Cons by simp
  also have "\<dots> = Max (set (v # a # vs))"
    by (cases "set vs = {}") (simp_all add: max.assoc)
  finally show ?case .
qed

lemma py_max_Some: "py_max vs = Some p \<Longrightarrow> p = Max (set vs) \<and> p \<in> set vs"
proof (cases vs)
  case Nil
  assume "py_max vs = Some p"
  with Nil show ?thesis by simp
next
  case (Cons a list)
  assume "py_max vs = Some p"
  with Cons have "p = Max (set vs)" by (simp add: foldl_max_eq del: set_simps Max_insert)
  moreover have "Max (set vs) \<in> set vs" using Cons by (intro Max_in) simp_all
  ultimately show ?thesis by simp
qed

lemma py_max_None_iff: "py_max vs = None \<longleftrightarrow> vs = []"
  by (cases vs) simp_all

lemma set_peak_values: "set (peak_values vs) = {x. Some x \<in> set vs}"
  by (force simp: peak_values_def List.map_filter_def)

lemmas metrics_defs =
  compute_player_mdp_metrics_def empty_metrics_def find_overall_peak_def peak_values_def
  List.map_filter_def window_mdp_def col_name_simps window_label_simps peak_window_def
  mdp_of_def window_sizes_def pct_coverage_def total_seconds_def Let_def

lemma find_sorted_least:
  "find P xs = Some x \<Longrightarrow> sorted xs \<Longrightarrow> y \<in> set xs \<Longrightarrow> P y \<Longrightarrow> x \<le> (y::nat)"
proof -
  assume f: "find P xs = Some x" and s: "sorted xs" and y: "y \<in> set xs" and p: "P y"
  from f obtain i where i: "i < length xs" "x = xs ! i" "\<forall>j<i. \<not> P (xs ! j)"
    by (auto simp: find_Some_iff)
  from y obtain j where j: "j < length xs" "y = xs ! j" by (auto simp: in_set_conv_nth)
  with p i have "i \<le> j" by (meson not_le)
  with s j i show ?thesis by (simp add: sorted_nth_mono)
qed

lemma find_overall_peak_mdp [simp]:
  "mdp_of (find_overall_peak m) w = mdp_of m w"
  by (simp add: find_overall_peak_def mdp_of_def split: option.splits)

lemma mdp_of_compute:
  "n_rows df \<noteq> 0 \<Longrightarrow>
   mdp_of (compute_player_mdp_metrics (Some df)) w =
     (if w \<in> set window_sizes then window_mdp df w else None)"
  by (simp add: compute_player_mdp_metrics_def empty_metrics_def find_overall_peak_def
      mdp_of_def window_sizes_def Let_def split: option.splits)

lemma mdp_of_compute_empty:
  "psdf = None \<or> (\<exists>df. psdf = Some df \<and> n_rows df = 0) \<Longrightarrow>
   mdp_of (compute_player_mdp_metrics psdf) w = None"
  by (auto simp: compute_player_mdp_metrics_def empty_metrics_def mdp_of_def)

lemma window_values_eq:
  "{v. \<exists>w\<in>set window_sizes. mdp_of m w = Some v} =
   set (peak_values [mdp_5 m, mdp_10 m, mdp_20 m, mdp_30 m])"
  by (auto simp: set_peak_values mdp_of_def window_sizes_def)

lemma find_overall_peak_fields:
  "mdp_5 (find_overall_peak m) = mdp_5 m" "mdp_10 (find_overall_peak m) = mdp_10 m"
  "mdp_20 (find_overall_peak m) = mdp_20 m" "mdp_30 (find_overall_peak m) = mdp_30 m"
  by (simp_all add: find_overall_peak_def split: option.splits)

lemma peak_of_compute:
  "n_rows df \<noteq> 0 \<Longrightarrow> m = compute_player_mdp_metrics (Some df) \<Longrightarrow>
   mdp_peak_value m = py_max (peak_values [mdp_5 m, mdp_10 m, mdp_20 m, mdp_30 m]) \<and>
   mdp_peak_window m =
     (case mdp_peak_value m of None \<Rightarrow> None
      | Some p \<Rightarrow> map_option window_label (find (\<lambda>w. mdp_of m w = Some p) window_sizes))"
  by (simp add: compute_player_mdp_metrics_def empty_metrics_def find_overall_peak_def
      peak_window_def mdp_of_def Let_def split: option.splits)

lemma overall_peak_characterisation:
  assumes m: "m = compute_player_mdp_metrics player_session_df"
    and some: "\<exists>w\<in>set window_sizes. mdp_of m w \<noteq> None"
  shows "\<exists>p w. mdp_peak_value m = Some p
           \<and> p = Max {v. \<exists>w'\<in>set window_sizes. mdp_of m w' = Some v}
           \<and> w \<in> set window_sizes
           \<and> mdp_peak_window m = Some (window_label w)
           \<and> mdp_of m w = Some p
           \<and> (\<forall>w'\<in>set window_sizes. mdp_of m w' = Some p \<longrightarrow> w \<le> w')"
proof -
  have "\<not> (player_session_df = None \<or> (\<exists>df. player_session_df = Some df \<and> n_rows df = 0))"
  proof
    assume "player_session_df = None \<or> (\<exists>df. player_session_df = Some df \<and> n_rows df = 0)"
    then have "\<And>w. mdp_of m w = None" unfolding m by (rule mdp_of_compute_empty)
    with some show False by simp
  qed
  then obtain df where df: "player_session_df = Some df" "n_rows df \<noteq> 0"
    by (cases player_session_df) auto
  let ?pvs = "peak_values [mdp_5 m, mdp_10 m, mdp_20 m, mdp_30 m]"
  from df m have pk: "mdp_peak_value m = py_max ?pvs"
    and win: "mdp_peak_window m =
      (case mdp_peak_value m of None \<Rightarrow> None
       | Some p \<Rightarrow> map_option window_label (find (\<lambda>w. mdp_of m w = Some p) window_sizes))"
    using peak_of_compute [of df m] by simp_all
  from some have "set ?pvs \<noteq> {}" unfolding window_values_eq [symmetric] by auto
  then obtain p where p: "py_max ?pvs = Some p"
    using py_max_None_iff [of ?pvs] by (cases "py_max ?pvs") auto
  then have pmax: "p = Max (set ?pvs)" and pin: "p \<in> set ?pvs"
    using py_max_Some by blast+
  from pin obtain w0 where w0: "w0 \<in> set window_sizes" "mdp_of m w0 = Some p"
    unfolding window_values_eq [symmetric] by auto
  then obtain w where w: "find (\<lambda>w. mdp_of m w = Some p) window_sizes = Some w"
    by (cases "find (\<lambda>w. mdp_of m w = Some p) window_sizes") (auto simp: find_None_iff)
  then have wP: "mdp_of m w = Some p" and wS: "w \<in> set window_sizes"
    by (auto simp: find_Some_iff)
  have least: "\<forall>w'\<in>set window_sizes. mdp_of m w' = Some p \<longrightarrow> w \<le> w'"
    using find_sorted_least [OF w] by (auto simp: window_sizes_def)
  from pk p win w have "mdp_peak_value m = Some p" "mdp_peak_window m = Some (window_label w)"
    by simp_all
  with pmax wP wS least show ?thesis
    unfolding window_values_eq by blast
qed

lemma coverage_compute:
  "n_rows df \<noteq> 0 \<Longrightarrow>
   coverage (data_quality (compute_player_mdp_metrics (Some df))) = pct_coverage df"
  by (simp add: compute_player_mdp_metrics_def Let_def)

lemma pct_coverage_bounds: "0 \<le> pct_coverage df \<and> pct_coverage df \<le> 100"
proof (cases "timestamp_column df")
  case None
  then show ?thesis by (simp add: pct_coverage_def Let_def)
next
  case (Some ts)
  show ?thesis
  proof (cases "n_rows df > 1")
    case False
    with Some show ?thesis by (simp add: pct_coverage_def Let_def)
  next
    case True
    show ?thesis
    proof (cases "total_seconds (series_max ts) (series_min ts)")
      case None
      with Some True show ?thesis by (simp add: pct_coverage_def Let_def)
    next
      case (Some secs)
      have "0 \<le> real (n_rows df) / max 1 secs * 100"
        by (simp add: max_def)
      with Some True \<open>timestamp_column df = Some ts\<close> show ?thesis
        by (simp add: pct_coverage_def Let_def min_def)
    qed
  qed
qed

lemma pct_coverage_zero_span:
  assumes "n_rows df > 1" and "timestamp_column df = Some ts"
    and "series_min ts = Some t" and "series_max ts = Some t"
  shows "pct_coverage df = 100"
  using assms by (simp add: pct_coverage_def total_seconds_def Let_def)

lemma pct_coverage_no_timestamp:
  "n_rows df > 0 \<Longrightarrow> timestamp_column df = None \<Longrightarrow> pct_coverage df = 100"
  by (simp add: pct_coverage_def Let_def)

lemma has_peak_data_compute:
  "has_peak_data (compute_player_mdp_metrics psdf) \<longleftrightarrow>
     (mdp_5 (compute_player_mdp_metrics psdf) \<noteq> None
      \<or> mdp_10 (compute_player_mdp_metrics psdf) \<noteq> None
      \<or> mdp_20 (compute_player_mdp_metrics psdf) \<noteq> None
      \<or> mdp_30 (compute_player_mdp_metrics psdf) \<noteq> None)"
  by (cases psdf)
    (simp_all add: compute_player_mdp_metrics_def empty_metrics_def Let_def
      find_overall_peak_fields)

lemma has_peak_data_windows:
  "has_peak_data (compute_player_mdp_metrics psdf) \<longleftrightarrow>
     (\<exists>w\<in>set window_sizes. mdp_of (compute_player_mdp_metrics psdf) w \<noteq> None)"
  unfolding has_peak_data_compute by (simp add: window_sizes_def mdp_of_def)

lemma no_peak_data_no_peak:
  assumes "\<not> has_peak_data (compute_player_mdp_metrics psdf)"
  shows "mdp_peak_value (compute_player_mdp_metrics psdf) = None
       \<and> mdp_peak_window (compute_player_mdp_metrics psdf) = None"
proof (cases "psdf = None \<or> (\<exists>df. psdf = Some df \<and> n_rows df = 0)")
  case True
  then show ?thesis by (auto simp: compute_player_mdp_metrics_def empty_metrics_def)
next
  case False
  then obtain df where df: "psdf = Some df" "n_rows df \<noteq> 0" by (cases psdf) auto
  let ?m = "compute_player_mdp_metrics psdf"
  from assms have "peak_values [mdp_5 ?m, mdp_10 ?m, mdp_20 ?m, mdp_30 ?m] = []"
    unfolding has_peak_data_compute by (auto simp add: peak_values_def List.map_filter_def)
  with peak_of_compute [of df ?m] df show ?thesis by simp
qed

lemma peak_data_has_peak:
  assumes "has_peak_data (compute_player_mdp_metrics psdf)"
  shows "mdp_peak_value (compute_player_mdp_metrics psdf) \<noteq> None
       \<and> mdp_peak_window (compute_player_mdp_metrics psdf) \<noteq> None"
proof -
  from assms have "\<exists>w\<in>set window_sizes. mdp_of (compute_player_mdp_metrics psdf) w \<noteq> None"
    by (simp add: has_peak_data_windows)
  from overall_peak_characterisation [OF refl this] show ?thesis by auto
qed

section \<open>Facts about the page's column check and the composite\<close>

lemma set_available_cols:
  "set (available_cols raw_df) = set required_cols \<inter> dom (float_columns raw_df)"
  by (auto simp: available_cols_def)

lemma length_available_cols:
  "length (available_cols raw_df) = card (set required_cols \<inter> dom (float_columns raw_df))"
proof -
  have d: "distinct (available_cols raw_df)"
    unfolding available_cols_def by (rule distinct_filter) (simp add: required_cols_def)
  from distinct_card [OF d] show ?thesis by (simp only: set_available_cols)
qed

lemma available_two: "available_cols two_signal_frame = [''speed'', ''hr'']"
  by (simp add: available_cols_def required_cols_def two_signal_frame_def)

lemma available_three: "available_cols three_signal_frame = [''speed'', ''acc'', ''mp'']"
  by (simp add: available_cols_def required_cols_def three_signal_frame_def)

lemma sum_list_map_divide:
  "sum_list (map (\<lambda>c. f c / (k::real)) xs) = sum_list (map f xs) / k"
  by (induction xs) (simp_all add: add_divide_distrib)

lemma renormalized_weight_in:
  "c \<in> set available \<Longrightarrow> renormalized_weight w available c = w c / sum_list (map w available)"
  by (simp add: renormalized_weight_def)

lemma sum_renormalized:
  "sum_list (map (renormalized_weight w available) available) =
   sum_list (map w available) / sum_list (map w available)"
proof -
  have "map (renormalized_weight w available) available =
        map (\<lambda>c. w c / sum_list (map w available)) available"
    by (rule map_cong) (simp_all add: renormalized_weight_in)
  then have "sum_list (map (renormalized_weight w available) available) =
        sum_list (map (\<lambda>c. w c / sum_list (map w available)) available)"
    by (rule arg_cong)
  also have "\<dots> = sum_list (map w available) / sum_list (map w available)"
    by (rule sum_list_map_divide)
  finally show ?thesis .
qed

lemma intensity_raw_eq:
  "intensity_raw w available x = zero_filled_raw w available x / sum_list (map w available)"
proof -
  have "map (\<lambda>c. renormalized_weight w available c * x c) available =
        map (\<lambda>c. (w c * x c) / sum_list (map w available)) available"
    by (rule map_cong) (simp_all add: renormalized_weight_in)
  then have "intensity_raw w available x =
        sum_list (map (\<lambda>c. (w c * x c) / sum_list (map w available)) available)"
    unfolding intensity_raw_def by (rule arg_cong)
  also have "\<dots> = sum_list (map (\<lambda>c. w c * x c) available) / sum_list (map w available)"
    by (rule sum_list_map_divide)
  finally show ?thesis by (simp only: zero_filled_raw_def)
qed

section \<open>Facts about the scorer and its fixture\<close>

lemma fixture_keys: "session_keys fixture_raw = [(''A'', ''2025-01-01''), (''B'', ''2025-01-01'')]"
  by (simp add: session_keys_def fixture_raw_def steady_samples_def burst_samples_def numeral_eq_Suc)

lemma fixture_mp_steady: "session_mp fixture_raw (''A'', ''2025-01-01'') = replicate 30 1"
  by (simp add: session_mp_def fixture_raw_def steady_samples_def burst_samples_def filter_replicate)

lemma fixture_mp_burst: "session_mp fixture_raw (''B'', ''2025-01-01'') = replicate 10 2 @ replicate 10 0 @ replicate 10 1"
  by (simp add: session_mp_def fixture_raw_def steady_samples_def burst_samples_def filter_replicate)

lemma steady_mdp_10: "compute_mdp (replicate 30 1) 10 = Some 1"
  by code_simp

lemma burst_mdp_10: "compute_mdp (replicate 10 2 @ replicate 10 0 @ replicate 10 1) 10 = Some 2"
  by code_simp

lemma burst_mdp_20: "compute_mdp (replicate 10 2 @ replicate 10 0 @ replicate 10 1) 20 = Some 1"
  by code_simp

lemma burst_mdp_30: "compute_mdp (replicate 10 2 @ replicate 10 0 @ replicate 10 1) 30 = Some 1"
  by code_simp

lemma steady_mdp_20: "compute_mdp (replicate 30 1) 20 = Some 1"
  by code_simp

lemma steady_mdp_30: "compute_mdp (replicate 30 1) 30 = Some 1"
  by code_simp

lemma sub_scores_steady:
  "explosiveness (session_mp fixture_raw (''A'', ''2025-01-01'')) = Some 1"
  "repeatability (session_mp fixture_raw (''A'', ''2025-01-01'')) = Some 1"
  "volume (session_mp fixture_raw (''A'', ''2025-01-01'')) = Some 30"
  unfolding fixture_mp_steady by (simp_all add: explosiveness_def repeatability_def volume_def steady_mdp_10 steady_mdp_20 steady_mdp_30
      sum_list_replicate)

lemma sub_scores_burst:
  "explosiveness (session_mp fixture_raw (''B'', ''2025-01-01'')) = Some 2"
  "repeatability (session_mp fixture_raw (''B'', ''2025-01-01'')) = Some 1"
  "volume (session_mp fixture_raw (''B'', ''2025-01-01'')) = Some 30"
  unfolding fixture_mp_burst by (simp_all add: explosiveness_def repeatability_def volume_def burst_mdp_10 burst_mdp_20 burst_mdp_30
      sum_list_replicate)

lemma fixture_teams:
  "team_values fixture_raw explosiveness ''2025-01-01'' = [1, 2]"
  "team_values fixture_raw repeatability ''2025-01-01'' = [1, 1]"
  "team_values fixture_raw volume ''2025-01-01'' = [30, 30]"
  by (simp_all add: team_values_def fixture_keys List.map_filter_def sub_scores_steady sub_scores_burst)

lemma z_flat: "z_score ddof [c, c] c = Some 0"
  by (simp add: z_score_def team_stddev_def mean_def)

lemma sd_pos:
  assumes "ddof \<le> 1"
  shows "team_stddev ddof [1, 2] > 0"
proof -
  from assms have "real (length [1::real, 2] - ddof) > 0" by simp
  moreover have "sum_list (map (\<lambda>x. (x - mean [1, 2])\<^sup>2) [1::real, 2]) = 1 / 2"
    by (simp add: mean_def power2_eq_square)
  ultimately show ?thesis
    unfolding team_stddev_def by simp
qed

lemma z_explosive:
  assumes "ddof \<le> 1"
  shows "z_score ddof [1, 2] 1 = Some (- (1 / 2) / team_stddev ddof [1, 2])"
    and "z_score ddof [1, 2] 2 = Some ((1 / 2) / team_stddev ddof [1, 2])"
  using sd_pos [OF assms] by (simp_all add: z_score_def mean_def)

lemma fixture_indices:
  assumes "ddof \<le> 1"
  shows "map session_intensity_index (build_session_intensity_df ddof fixture_raw weights) =
         [Some (w_explosiveness weights * (- (1 / 2) / team_stddev ddof [1, 2])),
          Some (w_explosiveness weights * ((1 / 2) / team_stddev ddof [1, 2]))]"
  by (simp add: build_session_intensity_df_def fixture_keys score_session_def Let_def sub_score_z_def
      sub_scores_steady sub_scores_burst fixture_teams z_flat z_explosive [OF assms] weighted_index_def)

lemma fixture_indices_differ:
  assumes "ddof \<le> 1" and "w_explosiveness v \<noteq> w_explosiveness w"
  shows "map session_intensity_index (build_session_intensity_df ddof fixture_raw v) \<noteq>
         map session_intensity_index (build_session_intensity_df ddof fixture_raw w)"
  using sd_pos [OF assms(1)] assms(2) unfolding fixture_indices [OF assms(1)] by simp

lemma get_explicit:
  "get_session_intensity_df load build path (Some a) (Some b) (Some c) =
     (case load path of
        Inl err \<Rightarrow> Inl err
      | Inr raw \<Rightarrow> Inr (build raw \<lparr>w_explosiveness = a, w_repeatability = b, w_volume = c\<rparr>))"
  by (simp add: get_session_intensity_df_def Let_def split: sum.splits)

lemma get_default:
  "get_session_intensity_df load build path None None None =
   get_session_intensity_df load build path (Some 0.30) (Some 0.50) (Some 0.20)"
  by (simp add: get_session_intensity_df_def Let_def split: sum.splits)


section \<open>Overall peak of a session\<close>

text \<open>
  Claim C1. Whenever at least one of the four window peaks is defined, the overall peak of
  the returned record is the maximum of the defined window peaks, the recorded window is
  one of 5s, 10s, 20s, 30s whose peak equals that maximum, and among the windows that reach
  the maximum it is the shortest.
\<close>

theorem overall_peak_is_max_shortest_window:
  assumes m: "m = compute_player_mdp_metrics player_session_df"
    and some: "\<exists>w\<in>set window_sizes. mdp_of m w \<noteq> None"
  shows "\<exists>p w. mdp_peak_value m = Some p
           \<and> p = Max {v. \<exists>w'\<in>set window_sizes. mdp_of m w' = Some v}
           \<and> w \<in> set window_sizes
           \<and> mdp_peak_window m = Some (window_label w)
           \<and> mdp_of m w = Some p
           \<and> (\<forall>w'\<in>set window_sizes. mdp_of m w' = Some p \<longrightarrow> w \<le> w')"
  using assms by (rule overall_peak_characterisation)

theorem overall_peak_is_max_shortest_window_witness:
  "(\<exists>w\<in>set window_sizes. mdp_of (compute_player_mdp_metrics (Some tied_session)) w \<noteq> None)
   \<and> mdp_5 (compute_player_mdp_metrics (Some tied_session)) = Some 3
   \<and> mdp_10 (compute_player_mdp_metrics (Some tied_session)) = Some 3
   \<and> mdp_peak_value (compute_player_mdp_metrics (Some tied_session)) = Some 3
   \<and> mdp_peak_window (compute_player_mdp_metrics (Some tied_session)) = Some ''5s''
   \<and> (\<exists>p w. mdp_peak_value (compute_player_mdp_metrics (Some tied_session)) = Some p
           \<and> p = Max {v. \<exists>w'\<in>set window_sizes.
                      mdp_of (compute_player_mdp_metrics (Some tied_session)) w' = Some v}
           \<and> w \<in> set window_sizes
           \<and> mdp_peak_window (compute_player_mdp_metrics (Some tied_session)) = Some (window_label w)
           \<and> mdp_of (compute_player_mdp_metrics (Some tied_session)) w = Some p
           \<and> (\<forall>w'\<in>set window_sizes.
                 mdp_of (compute_player_mdp_metrics (Some tied_session)) w' = Some p \<longrightarrow> w \<le> w'))"
proof -
  have h: "\<exists>w\<in>set window_sizes. mdp_of (compute_player_mdp_metrics (Some tied_session)) w \<noteq> None"
    by (simp add: metrics_defs tied_session_def)
  have "mdp_5 (compute_player_mdp_metrics (Some tied_session)) = Some 3"
    "mdp_10 (compute_player_mdp_metrics (Some tied_session)) = Some 3"
    "mdp_peak_value (compute_player_mdp_metrics (Some tied_session)) = Some 3"
    "mdp_peak_window (compute_player_mdp_metrics (Some tied_session)) = Some ''5s''"
    by (simp_all add: metrics_defs tied_session_def)
  with h overall_peak_is_max_shortest_window [OF refl h] show ?thesis by blast
qed

section \<open>Classification boundaries\<close>

text \<open>
  Claim C2. The classification is exhaustive and non-overlapping: a percentile is Easy
  exactly when it is below 25, Medium exactly from 25 to below 60, Hard exactly from 60 to
  below 85 and Very Hard exactly from 85 on, so every percentile has one of the four
  categories; the six boundary values of the spec fall as it lists them.
\<close>

theorem classification_boundaries:
  "(classify_intensity_from_percentile p = ''Easy'' \<longleftrightarrow> p < 25)
   \<and> (classify_intensity_from_percentile p = ''Medium'' \<longleftrightarrow> 25 \<le> p \<and> p < 60)
   \<and> (classify_intensity_from_percentile p = ''Hard'' \<longleftrightarrow> 60 \<le> p \<and> p < 85)
   \<and> (classify_intensity_from_percentile p = ''Very Hard'' \<longleftrightarrow> 85 \<le> p)
   \<and> classify_intensity_from_percentile p \<in> {''Easy'', ''Medium'', ''Hard'', ''Very Hard''}
   \<and> classify_intensity_from_percentile 24.999 = ''Easy''
   \<and> classify_intensity_from_percentile 25 = ''Medium''
   \<and> classify_intensity_from_percentile 59.999 = ''Medium''
   \<and> classify_intensity_from_percentile 60 = ''Hard''
   \<and> classify_intensity_from_percentile 84.999 = ''Hard''
   \<and> classify_intensity_from_percentile 85 = ''Very Hard''"
  by (simp add: classify_intensity_from_percentile_def)

theorem classification_boundaries_witness:
  "classify_intensity_from_percentile 10 = ''Easy''
   \<and> classify_intensity_from_percentile 45 = ''Medium''
   \<and> classify_intensity_from_percentile 70 = ''Hard''
   \<and> classify_intensity_from_percentile 90 = ''Very Hard''
   \<and> classify_intensity_from_percentile 0 = ''Easy''
   \<and> classify_intensity_from_percentile 100 = ''Very Hard''"
  using classification_boundaries [of 10] classification_boundaries [of 45]
    classification_boundaries [of 70] classification_boundaries [of 90]
    classification_boundaries [of 0] classification_boundaries [of 100]
  by simp

section \<open>Empty sessions\<close>

text \<open>
  Claim C3. For an empty input (no data frame, or a data frame with zero rows) the helper
  returns a record whose six peak fields are all \<open>None\<close> and whose \<open>has_peak_data\<close> is
  false. The function is total on data frames, so no exception arises.
\<close>

theorem empty_session_all_none:
  assumes "player_session_df = None \<or> (\<exists>df. player_session_df = Some df \<and> n_rows df = 0)"
  shows "mdp_5 (compute_player_mdp_metrics player_session_df) = None
       \<and> mdp_10 (compute_player_mdp_metrics player_session_df) = None
       \<and> mdp_20 (compute_player_mdp_metrics player_session_df) = None
       \<and> mdp_30 (compute_player_mdp_metrics player_session_df) = None
       \<and> mdp_peak_value (compute_player_mdp_metrics player_session_df) = None
       \<and> mdp_peak_window (compute_player_mdp_metrics player_session_df) = None
       \<and> \<not> has_peak_data (compute_player_mdp_metrics player_session_df)"
  using assms by (auto simp: compute_player_mdp_metrics_def empty_metrics_def)

theorem empty_session_all_none_witness:
  "(Some no_rows = None \<or> (\<exists>df. Some no_rows = Some df \<and> n_rows df = 0))
   \<and> mdp_5 (compute_player_mdp_metrics (Some no_rows)) = None
   \<and> mdp_10 (compute_player_mdp_metrics (Some no_rows)) = None
   \<and> mdp_20 (compute_player_mdp_metrics (Some no_rows)) = None
   \<and> mdp_30 (compute_player_mdp_metrics (Some no_rows)) = None
   \<and> mdp_peak_value (compute_player_mdp_metrics (Some no_rows)) = None
   \<and> mdp_peak_window (compute_player_mdp_metrics (Some no_rows)) = None
   \<and> \<not> has_peak_data (compute_player_mdp_metrics (Some no_rows))
   \<and> mdp_5 (compute_player_mdp_metrics None) = None
   \<and> mdp_peak_value (compute_player_mdp_metrics None) = None
   \<and> mdp_peak_window (compute_player_mdp_metrics None) = None
   \<and> \<not> has_peak_data (compute_player_mdp_metrics None)"
proof -
  have h: "Some no_rows = None \<or> (\<exists>df. Some no_rows = Some df \<and> n_rows df = 0)"
    by (simp add: no_rows_def)
  have h': "(None :: dataframe option) = None \<or> (\<exists>df. None = Some df \<and> n_rows df = 0)"
    by simp
  from h empty_session_all_none [OF h] empty_session_all_none [OF h'] show ?thesis
    by simp
qed

section \<open>Per-window peaks\<close>

text \<open>
  Claim C4. For each window size of 5, 10, 20 and 30 the window's peak is computed from its
  own column alone: it is \<open>None\<close> when the column is absent or has no defined cell, and
  otherwise the maximum of the defined cells, the missing ones being dropped. A \<open>None\<close>
  for one window leaves the other windows' peaks as they are.
\<close>

theorem window_mdp_drops_missing:
  assumes "n_rows df > 0" and "w \<in> set window_sizes"
  shows "mdp_of (compute_player_mdp_metrics (Some df)) w =
           (case float_columns df (col_name w) of
              None \<Rightarrow> None
            | Some column \<Rightarrow>
                if \<forall>c\<in>set column. c = None then None
                else Some (Max {x. Some x \<in> set column}))"
proof -
  from assms have eq: "mdp_of (compute_player_mdp_metrics (Some df)) w = window_mdp df w"
    by (simp add: mdp_of_compute)
  show ?thesis
  proof (cases "float_columns df (col_name w)")
    case None
    with eq show ?thesis by (simp add: window_mdp_def)
  next
    case col: (Some column)
    show ?thesis
    proof (cases "series_max column")
      case None
      with col eq show ?thesis by (simp add: window_mdp_def series_max_None_iff)
    next
      case (Some m)
      then have "m = Max {x. Some x \<in> set column}" by (rule series_max_Some)
      moreover from Some have "\<not> (\<forall>c\<in>set column. c = None)"
        using series_max_None_iff [of column] by simp
      ultimately show ?thesis
        using Some col eq by (simp add: window_mdp_def)
    qed
  qed
qed

theorem window_mdp_drops_missing_witness:
  "n_rows short_session > 0 \<and> 5 \<in> set window_sizes \<and> 10 \<in> set window_sizes
   \<and> 20 \<in> set window_sizes \<and> 30 \<in> set window_sizes
   \<and> mdp_of (compute_player_mdp_metrics (Some short_session)) 5 = Some 4
   \<and> mdp_of (compute_player_mdp_metrics (Some short_session)) 10 = None
   \<and> mdp_of (compute_player_mdp_metrics (Some short_session)) 20 = None
   \<and> mdp_of (compute_player_mdp_metrics (Some short_session)) 30 = None"
proof -
  have n: "n_rows short_session > 0" by (simp add: short_session_def)
  have w: "5 \<in> set window_sizes" "10 \<in> set window_sizes" "20 \<in> set window_sizes"
    "30 \<in> set window_sizes"
    by (simp_all add: window_sizes_def)
  have s: "{x::real. x = 2 \<or> x = 4} = {2, 4}" by auto
  have "mdp_of (compute_player_mdp_metrics (Some short_session)) 5 = Some 4"
    using window_mdp_drops_missing [OF n w(1)]
    by (simp add: short_session_def col_name_simps s)
  moreover have "mdp_of (compute_player_mdp_metrics (Some short_session)) 10 = None"
    using window_mdp_drops_missing [OF n w(2)]
    by (simp add: short_session_def col_name_simps)
  moreover have "mdp_of (compute_player_mdp_metrics (Some short_session)) 20 = None"
    using window_mdp_drops_missing [OF n w(3)]
    by (simp add: short_session_def col_name_simps)
  moreover have "mdp_of (compute_player_mdp_metrics (Some short_session)) 30 = None"
    using window_mdp_drops_missing [OF n w(4)]
    by (simp add: short_session_def col_name_simps)
  ultimately show ?thesis using n w by simp
qed

section \<open>Missing signals\<close>

text \<open>
  Claim C5. When fewer than three of the four signal columns speed, acc, hr and mp are
  present, the page does not fail: the session data are the raw data and one warning is
  issued. When at least three are present, the session data are what
  \<open>calculate_intensity_and_windows\<close> computes with the four weights 0.25, and no warning
  is issued.
\<close>

theorem missing_signal_fallback:
  "(card (set required_cols \<inter> dom (float_columns raw_df)) < 3 \<longrightarrow>
      compute_session_intensity calc raw_df =
        Inr (raw_df, [Warning ''Not all intensity columns available. Using raw data directly.'']))
   \<and> (3 \<le> card (set required_cols \<inter> dom (float_columns raw_df)) \<longrightarrow>
      compute_session_intensity calc raw_df =
        (case calc raw_df 0.25 0.25 0.25 0.25 (available_cols raw_df) of
           Inl err \<Rightarrow> Inl err
         | Inr (session_data, _) \<Rightarrow> Inr (session_data, [])))"
  unfolding length_available_cols [symmetric]
  by (simp add: compute_session_intensity_def)

theorem missing_signal_fallback_witness:
  "card (set required_cols \<inter> dom (float_columns two_signal_frame)) < 3
   \<and> compute_session_intensity echo_calculate two_signal_frame =
        Inr (two_signal_frame,
             [Warning ''Not all intensity columns available. Using raw data directly.''])
   \<and> 3 \<le> card (set required_cols \<inter> dom (float_columns three_signal_frame))
   \<and> compute_session_intensity echo_calculate three_signal_frame = Inr (three_signal_frame, [])"
proof -
  have a: "card (set required_cols \<inter> dom (float_columns two_signal_frame)) < 3"
    unfolding length_available_cols [symmetric] available_two by simp
  have b: "3 \<le> card (set required_cols \<inter> dom (float_columns three_signal_frame))"
    unfolding length_available_cols [symmetric] available_three by simp
  have c: "compute_session_intensity echo_calculate two_signal_frame =
        Inr (two_signal_frame,
             [Warning ''Not all intensity columns available. Using raw data directly.''])"
    by (rule missing_signal_fallback [of two_signal_frame echo_calculate, THEN conjunct1,
          THEN mp, OF a])
  have "compute_session_intensity echo_calculate three_signal_frame =
        (case echo_calculate three_signal_frame 0.25 0.25 0.25 0.25
                (available_cols three_signal_frame) of
           Inl err \<Rightarrow> Inl err
         | Inr (session_data, _) \<Rightarrow> Inr (session_data, []))"
    by (rule missing_signal_fallback [of three_signal_frame echo_calculate, THEN conjunct2,
          THEN mp, OF b])
  then have d: "compute_session_intensity echo_calculate three_signal_frame =
        Inr (three_signal_frame, [])"
    by (simp add: echo_calculate_def)
  show ?thesis
    apply (intro conjI)
       apply (rule a)
      apply (rule c)
     apply (rule b)
    apply (rule d)
    done
qed

section \<open>Weight presets\<close>

text \<open>
  Claim C6, as the code has it. For some raw data set the three presets (0.30, 0.50, 0.20),
  (0.50, 0.30, 0.20) and (0.20, 0.40, 0.40) give session intensity indices that differ
  pairwise, whichever of the two usual standard deviations is taken;
  \<open>get_session_intensity_df\<close> hands the weights it is given to the scorer; and a call
  that gives none scores with the default weights (0.30, 0.50, 0.20).
\<close>

theorem presets_differ_with_default:
  assumes "ddof \<le> 1"
  shows "(\<exists>raw. distinct
            [map session_intensity_index (build_session_intensity_df ddof raw
               \<lparr>w_explosiveness = 0.30, w_repeatability = 0.50, w_volume = 0.20\<rparr>),
             map session_intensity_index (build_session_intensity_df ddof raw
               \<lparr>w_explosiveness = 0.50, w_repeatability = 0.30, w_volume = 0.20\<rparr>),
             map session_intensity_index (build_session_intensity_df ddof raw
               \<lparr>w_explosiveness = 0.20, w_repeatability = 0.40, w_volume = 0.40\<rparr>)])
       \<and> get_session_intensity_df load build path (Some a) (Some b) (Some c) =
           (case load path of
              Inl err \<Rightarrow> Inl err
            | Inr raw \<Rightarrow>
                Inr (build raw \<lparr>w_explosiveness = a, w_repeatability = b, w_volume = c\<rparr>))
       \<and> get_session_intensity_df load build path None None None =
           get_session_intensity_df load build path (Some 0.30) (Some 0.50) (Some 0.20)"
proof -
  have "distinct
          [map session_intensity_index (build_session_intensity_df ddof fixture_raw
             \<lparr>w_explosiveness = 0.30, w_repeatability = 0.50, w_volume = 0.20\<rparr>),
           map session_intensity_index (build_session_intensity_df ddof fixture_raw
             \<lparr>w_explosiveness = 0.50, w_repeatability = 0.30, w_volume = 0.20\<rparr>),
           map session_intensity_index (build_session_intensity_df ddof fixture_raw
             \<lparr>w_explosiveness = 0.20, w_repeatability = 0.40, w_volume = 0.40\<rparr>)]"
    using fixture_indices_differ [OF assms] by simp
  then show ?thesis
    using get_explicit [of load build path a b c] get_default [of load build path] by blast
qed

theorem presets_differ_with_default_witness:
  "(1::nat) \<le> 1
   \<and> (\<exists>raw. distinct
         [map session_intensity_index (build_session_intensity_df 1 raw
            \<lparr>w_explosiveness = 0.30, w_repeatability = 0.50, w_volume = 0.20\<rparr>),
          map session_intensity_index (build_session_intensity_df 1 raw
            \<lparr>w_explosiveness = 0.50, w_repeatability = 0.30, w_volume = 0.20\<rparr>),
          map session_intensity_index (build_session_intensity_df 1 raw
            \<lparr>w_explosiveness = 0.20, w_repeatability = 0.40, w_volume = 0.40\<rparr>)])
   \<and> get_session_intensity_df fixture_files (build_session_intensity_df 1)
         ''full_players_df.csv'' (Some 0.50) (Some 0.30) (Some 0.20) =
       Inr (build_session_intensity_df 1 fixture_raw
              \<lparr>w_explosiveness = 0.50, w_repeatability = 0.30, w_volume = 0.20\<rparr>)
   \<and> get_session_intensity_df fixture_files (build_session_intensity_df 1)
         ''full_players_df.csv'' None None None =
       get_session_intensity_df fixture_files (build_session_intensity_df 1)
         ''full_players_df.csv'' (Some 0.30) (Some 0.50) (Some 0.20)"
proof -
  have h: "(1::nat) \<le> 1" by simp
  note t = presets_differ_with_default [OF h, of fixture_files "build_session_intensity_df 1"
      "''full_players_df.csv''" "0.50" "0.30" "0.20"]
  have f: "fixture_files ''full_players_df.csv'' = Inr fixture_raw"
    by (simp add: fixture_files_def)
  have "get_session_intensity_df fixture_files (build_session_intensity_df 1)
         ''full_players_df.csv'' (Some 0.50) (Some 0.30) (Some 0.20) =
       Inr (build_session_intensity_df 1 fixture_raw
              \<lparr>w_explosiveness = 0.50, w_repeatability = 0.30, w_volume = 0.20\<rparr>)"
    using t [THEN conjunct2, THEN conjunct1] by (simp add: f)
  with h t show ?thesis by blast
qed

text \<open>
  The claim's second half, that no default weights are built in, fails on
  \<open>get_session_intensity_df\<close>: on the fixture, the call that gives no weights returns
  the table of the preset (0.30, 0.50, 0.20), which is not the table of the preset
  (0.50, 0.30, 0.20).
\<close>

theorem implicit_default_counterexample:
  "get_session_intensity_df fixture_files (build_session_intensity_df 1)
     ''full_players_df.csv'' None None None =
   Inr (build_session_intensity_df 1 fixture_raw
          \<lparr>w_explosiveness = 0.30, w_repeatability = 0.50, w_volume = 0.20\<rparr>)
   \<and> get_session_intensity_df fixture_files (build_session_intensity_df 1)
       ''full_players_df.csv'' None None None \<noteq>
     get_session_intensity_df fixture_files (build_session_intensity_df 1)
       ''full_players_df.csv'' (Some 0.50) (Some 0.30) (Some 0.20)"
proof -
  have f: "fixture_files ''full_players_df.csv'' = Inr fixture_raw"
    by (simp add: fixture_files_def)
  have d: "get_session_intensity_df fixture_files (build_session_intensity_df 1)
     ''full_players_df.csv'' None None None =
   Inr (build_session_intensity_df 1 fixture_raw
          \<lparr>w_explosiveness = 0.30, w_repeatability = 0.50, w_volume = 0.20\<rparr>)"
    unfolding get_default by (simp add: get_explicit f)
  have e: "get_session_intensity_df fixture_files (build_session_intensity_df 1)
       ''full_players_df.csv'' (Some 0.50) (Some 0.30) (Some 0.20) =
   Inr (build_session_intensity_df 1 fixture_raw
          \<lparr>w_explosiveness = 0.50, w_repeatability = 0.30, w_volume = 0.20\<rparr>)"
    by (simp add: get_explicit f)
  have "map session_intensity_index (build_session_intensity_df 1 fixture_raw
          \<lparr>w_explosiveness = 0.30, w_repeatability = 0.50, w_volume = 0.20\<rparr>) \<noteq>
        map session_intensity_index (build_session_intensity_df 1 fixture_raw
          \<lparr>w_explosiveness = 0.50, w_repeatability = 0.30, w_volume = 0.20\<rparr>)"
    by (rule fixture_indices_differ) simp_all
  then have "build_session_intensity_df 1 fixture_raw
          \<lparr>w_explosiveness = 0.30, w_repeatability = 0.50, w_volume = 0.20\<rparr> \<noteq>
        build_session_intensity_df 1 fixture_raw
          \<lparr>w_explosiveness = 0.50, w_repeatability = 0.30, w_volume = 0.20\<rparr>"
    by auto
  with d e show ?thesis by simp
qed

section \<open>Renormalised weights\<close>

text \<open>
  Claim C7. With a subset of the signals available and a non-zero total of their weights,
  the composite uses the remaining weights renormalised proportionally: they sum to one,
  keep their ratios, vanish outside the available signals, and the composite is the
  weighted sum divided by the remaining total. It differs from the zero-filled sum with
  the original weights whenever that total is not one and the sum is not zero.
\<close>

theorem renormalized_composite:
  assumes "sum_list (map w available) \<noteq> 0"
  shows "sum_list (map (renormalized_weight w available) available) = 1
       \<and> (\<forall>c\<in>set available. \<forall>c'\<in>set available.
             renormalized_weight w available c * w c' = renormalized_weight w available c' * w c)
       \<and> (\<forall>c. c \<notin> set available \<longrightarrow> renormalized_weight w available c = 0)
       \<and> intensity_raw w available normed =
           sum_list (map (\<lambda>c. w c * normed c) available) / sum_list (map w available)
       \<and> (sum_list (map w available) \<noteq> 1 \<and> zero_filled_raw w available normed \<noteq> 0 \<longrightarrow>
             intensity_raw w available normed \<noteq> zero_filled_raw w available normed)"
proof -
  have 1: "sum_list (map (renormalized_weight w available) available) = 1"
    using assms by (simp add: sum_renormalized)
  have 2: "\<forall>c\<in>set available. \<forall>c'\<in>set available.
             renormalized_weight w available c * w c' = renormalized_weight w available c' * w c"
    by (simp add: renormalized_weight_in)
  have 3: "\<forall>c. c \<notin> set available \<longrightarrow> renormalized_weight w available c = 0"
    by (simp add: renormalized_weight_def)
  have 4: "intensity_raw w available normed =
           sum_list (map (\<lambda>c. w c * normed c) available) / sum_list (map w available)"
    using intensity_raw_eq [of w available normed] by (simp add: zero_filled_raw_def)
  have 5: "sum_list (map w available) \<noteq> 1 \<and> zero_filled_raw w available normed \<noteq> 0 \<longrightarrow>
             intensity_raw w available normed \<noteq> zero_filled_raw w available normed"
    using assms by (simp add: intensity_raw_eq field_simps)
  from 1 2 3 4 5 show ?thesis by blast
qed

theorem renormalized_composite_witness:
  "sum_list (map (signal_weight 0.25 0.25 0.25 0.25) (available_cols three_signal_frame)) \<noteq> 0
   \<and> available_cols three_signal_frame = [''speed'', ''acc'', ''mp'']
   \<and> renormalized_weight (signal_weight 0.25 0.25 0.25 0.25)
        (available_cols three_signal_frame) ''speed'' = 1 / 3
   \<and> renormalized_weight (signal_weight 0.25 0.25 0.25 0.25)
        (available_cols three_signal_frame) ''hr'' = 0
   \<and> sum_list (map (renormalized_weight (signal_weight 0.25 0.25 0.25 0.25)
        (available_cols three_signal_frame)) (available_cols three_signal_frame)) = 1
   \<and> intensity_raw (signal_weight 0.25 0.25 0.25 0.25)
        (available_cols three_signal_frame) (\<lambda>c. 1) = 1
   \<and> zero_filled_raw (signal_weight 0.25 0.25 0.25 0.25)
        (available_cols three_signal_frame) (\<lambda>c. 1) = 3 / 4"
proof -
  let ?w = "signal_weight 0.25 0.25 0.25 0.25"
  let ?a = "available_cols three_signal_frame"
  have s: "sum_list (map ?w ?a) = 3 / 4"
    unfolding available_three by (simp add: signal_weight_def)
  then have ne: "sum_list (map ?w ?a) \<noteq> 0" by simp
  note t = renormalized_composite [OF ne, of "\<lambda>c. 1"]
  have z: "zero_filled_raw ?w ?a (\<lambda>c. 1) = 3 / 4"
    unfolding available_three by (simp add: zero_filled_raw_def signal_weight_def)
  have r1: "renormalized_weight ?w ?a ''speed'' = 1 / 3"
    unfolding available_three by (simp add: renormalized_weight_def signal_weight_def)
  have n: "''hr'' \<notin> set ?a" unfolding available_three by simp
  have "\<forall>c. c \<notin> set ?a \<longrightarrow> renormalized_weight ?w ?a c = 0"
    by (rule t [THEN conjunct2, THEN conjunct2, THEN conjunct1])
  then have "''hr'' \<notin> set ?a \<longrightarrow> renormalized_weight ?w ?a ''hr'' = 0"
    by (rule allE)
  then have r2: "renormalized_weight ?w ?a ''hr'' = 0" using n by (rule mp)
  have u: "sum_list (map (renormalized_weight ?w ?a) ?a) = 1"
    by (rule t [THEN conjunct1])
  have "intensity_raw ?w ?a (\<lambda>c. 1) = sum_list (map (\<lambda>c. ?w c * 1) ?a) / sum_list (map ?w ?a)"
    by (rule t [THEN conjunct2, THEN conjunct2, THEN conjunct2, THEN conjunct1])
  also have "\<dots> = 1" using s by simp
  finally have i: "intensity_raw ?w ?a (\<lambda>c. 1) = 1" .
  show ?thesis
    apply (intro conjI)
          apply (rule ne)
         apply (rule available_three)
        apply (rule r1)
       apply (rule r2)
      apply (rule u)
     apply (rule i)
    apply (rule z)
    done
qed

section \<open>Facts about double rounding and the trend\<close>

lemma round_double_binade:
  assumes "2 powr of_int k \<le> \<bar>x\<bar>" and "\<bar>x\<bar> < 2 powr of_int (k + 1)"
  shows "round_double x =
         of_int (round_half_even (x / 2 powr of_int (k - 52))) * 2 powr of_int (k - 52)"
proof -
  have "(0::real) < 2 powr of_int k" by simp
  with assms(1) have pos: "\<bar>x\<bar> > 0" by linarith
  then have "x \<noteq> 0" by auto
  moreover have "\<lfloor>log 2 \<bar>x\<bar>\<rfloor> = k"
    using assms pos by (subst floor_log_eq_powr_iff) simp_all
  ultimately show ?thesis by (simp add: round_double_def Let_def)
qed

lemma round_double_dyadic:
  "round_double 8 = 8" "round_double (1 / 8) = 1 / 8" "round_double (25 / 2) = 25 / 2"
  "round_double (- 8) = - 8" "round_double (- (1 / 8)) = - (1 / 8)"
  "round_double (- (25 / 2)) = - (25 / 2)"
  "round_double 2 = 2" "round_double (1 / 32) = 1 / 32" "round_double (25 / 8) = 25 / 8"
proof -
  show "round_double 8 = 8"
    by (subst round_double_binade [of 3])
      (simp_all add: round_half_even_def Let_def powr_neg_numeral)
  show "round_double (1 / 8) = 1 / 8"
    by (subst round_double_binade [of "- 3"])
      (simp_all add: round_half_even_def Let_def powr_neg_numeral)
  show "round_double (25 / 2) = 25 / 2"
    by (subst round_double_binade [of 3])
      (simp_all add: round_half_even_def Let_def powr_neg_numeral)
  show "round_double (- 8) = - 8"
    by (subst round_double_binade [of 3])
      (simp_all add: round_half_even_def Let_def powr_neg_numeral)
  show "round_double (- (1 / 8)) = - (1 / 8)"
    by (subst round_double_binade [of "- 3"])
      (simp_all add: round_half_even_def Let_def powr_neg_numeral)
  show "round_double (- (25 / 2)) = - (25 / 2)"
    by (subst round_double_binade [of 3])
      (simp_all add: round_half_even_def Let_def powr_neg_numeral)
  show "round_double 2 = 2"
    by (subst round_double_binade [of 1])
      (simp_all add: round_half_even_def Let_def powr_neg_numeral)
  show "round_double (1 / 32) = 1 / 32"
    by (subst round_double_binade [of "- 5"])
      (simp_all add: round_half_even_def Let_def powr_neg_numeral)
  show "round_double (25 / 8) = 25 / 8"
    by (subst round_double_binade [of 1])
      (simp_all add: round_half_even_def Let_def powr_neg_numeral)
qed

lemma early_double: "round_double 61.4 = 8641281785017139 / 2 ^ 47"
  by (subst round_double_binade [of 5])
    (simp_all add: round_half_even_def Let_def powr_neg_numeral)

lemma late_double: "round_double 64.47 = 2268336468566999 / 2 ^ 45"
  by (subst round_double_binade [of 6])
    (simp_all add: round_half_even_def Let_def powr_neg_numeral)

lemma double_ops_simps:
  "fsub double_ops a b = round_double (a - b)"
  "fdiv double_ops a b = round_double (a / b)"
  "fmul double_ops a b = round_double (a * b)"
  by (simp_all add: double_ops_def)

lemma threshold_change:
  "round_double (round_double 64.47 - round_double 61.4) = 432064089250857 / 2 ^ 47"
proof -
  have e: "round_double 64.47 - round_double 61.4 = 432064089250857 / 2 ^ 47"
    unfolding early_double late_double by simp
  show ?thesis
    unfolding e
    by (subst round_double_binade [of 1])
      (simp_all add: round_half_even_def Let_def powr_neg_numeral)
qed

lemma threshold_quotient:
  "round_double (432064089250857 / 2 ^ 47 / round_double 61.4) = 3602879701896397 / 2 ^ 56"
proof -
  have e: "432064089250857 / 2 ^ 47 / round_double 61.4 =
           432064089250857 / 8641281785017139"
    unfolding early_double by simp
  show ?thesis
    unfolding e
    by (subst round_double_binade [of "- 5"])
      (simp_all add: round_half_even_def Let_def powr_neg_numeral)
qed

lemma threshold_pct: "round_double (3602879701896397 / 2 ^ 56 * 100) = 5"
proof -
  have e: "3602879701896397 / 2 ^ 56 * 100 = (90071992547409925 / 2 ^ 54 :: real)"
    by simp
  show ?thesis
    unfolding e
    by (subst round_double_binade [of 2])
      (simp_all add: round_half_even_def Let_def powr_neg_numeral)
qed

lemma trend_of_defined_row:
  assumes "row_get row ''early_mp'' = Some early"
    and "row_get row ''late_mp'' = Some late"
    and "early > 0"
  shows "\<exists>trend_change trend_pct label.
           render_early_mid_late_trend ops (Some row) =
             ([(''trend_change'', trend_change), (''trend_pct'', trend_pct)], Some label)
           \<and> trend_change = fsub ops late early
           \<and> trend_pct = fmul ops (fdiv ops trend_change early) 100
           \<and> (trend_pct > 5 \<longrightarrow> label = Increasing)
           \<and> (trend_pct < - 5 \<longrightarrow> label = Decreasing)
           \<and> (- 5 \<le> trend_pct \<and> trend_pct \<le> 5 \<longrightarrow> label = Stable)"
proof -
  from assms(1) have "row \<noteq> []" by (auto simp: row_get_def)
  with assms show ?thesis
    by (simp add: render_early_mid_late_trend_def Let_def)
qed

section \<open>Trend label\<close>

text \<open>
  Claim C8, as the code has it. When the early-third and late-third means are both defined
  and the early mean is positive, the function computes the percentage change from early
  to late in double arithmetic, returns it as \<open>trend_pct\<close>, and the label follows that
  computed percentage: above +5 it is increasing, below -5 decreasing, and from -5 to +5
  stable.
\<close>

theorem trend_label_from_pct_change:
  assumes "row_get row ''early_mp'' = Some early"
    and "row_get row ''late_mp'' = Some late"
    and "early > 0"
  shows "\<exists>trend_change trend_pct label.
           render_early_mid_late_trend ops (Some row) =
             ([(''trend_change'', trend_change), (''trend_pct'', trend_pct)], Some label)
           \<and> trend_change = fsub ops late early
           \<and> trend_pct = fmul ops (fdiv ops trend_change early) 100
           \<and> (trend_pct > 5 \<longrightarrow> label = Increasing)
           \<and> (trend_pct < - 5 \<longrightarrow> label = Decreasing)
           \<and> (- 5 \<le> trend_pct \<and> trend_pct \<le> 5 \<longrightarrow> label = Stable)"
  using assms by (rule trend_of_defined_row)

theorem trend_label_from_pct_change_witness:
  "row_get rising_row ''early_mp'' = Some 64 \<and> row_get rising_row ''late_mp'' = Some 72
   \<and> render_early_mid_late_trend double_ops (Some rising_row) =
       ([(''trend_change'', 8), (''trend_pct'', 12.5)], Some Increasing)
   \<and> row_get fading_row ''early_mp'' = Some 64 \<and> row_get fading_row ''late_mp'' = Some 56
   \<and> render_early_mid_late_trend double_ops (Some fading_row) =
       ([(''trend_change'', - 8), (''trend_pct'', - 12.5)], Some Decreasing)
   \<and> row_get steady_row ''early_mp'' = Some 64 \<and> row_get steady_row ''late_mp'' = Some 66
   \<and> render_early_mid_late_trend double_ops (Some steady_row) =
       ([(''trend_change'', 2), (''trend_pct'', 3.125)], Some Stable)"
proof -
  have r: "row_get rising_row ''early_mp'' = Some 64" "row_get rising_row ''late_mp'' = Some 72"
    by (simp_all add: row_get_def rising_row_def)
  have f: "row_get fading_row ''early_mp'' = Some 64" "row_get fading_row ''late_mp'' = Some 56"
    by (simp_all add: row_get_def fading_row_def)
  have s: "row_get steady_row ''early_mp'' = Some 64" "row_get steady_row ''late_mp'' = Some 66"
    by (simp_all add: row_get_def steady_row_def)
  have pos: "(64::real) > 0" by simp
  have a: "render_early_mid_late_trend double_ops (Some rising_row) =
       ([(''trend_change'', 8), (''trend_pct'', 12.5)], Some Increasing)"
    using trend_label_from_pct_change [OF r pos, of double_ops]
    by (auto simp: double_ops_simps round_double_dyadic)
  have b: "render_early_mid_late_trend double_ops (Some fading_row) =
       ([(''trend_change'', - 8), (''trend_pct'', - 12.5)], Some Decreasing)"
    using trend_label_from_pct_change [OF f pos, of double_ops]
    by (auto simp: double_ops_simps round_double_dyadic)
  have c: "render_early_mid_late_trend double_ops (Some steady_row) =
       ([(''trend_change'', 2), (''trend_pct'', 3.125)], Some Stable)"
    using trend_label_from_pct_change [OF s pos, of double_ops]
    by (auto simp: double_ops_simps round_double_dyadic)
  from r a f b s c show ?thesis by (intro conjI)
qed

text \<open>
  Read of the exact percentage change, the claim fails at the threshold. For the doubles
  nearest to 61.4 and 64.47 the exact change is above 5 per cent, the rounded quotient
  times 100 rounds to 5, and the label is stable.
\<close>

theorem exact_change_above_five_counterexample:
  "row_get threshold_row ''early_mp'' = Some (round_double 61.4)
   \<and> row_get threshold_row ''late_mp'' = Some (round_double 64.47)
   \<and> round_double 61.4 > 0
   \<and> (round_double 64.47 - round_double 61.4) / round_double 61.4 * 100 > 5
   \<and> render_early_mid_late_trend double_ops (Some threshold_row) =
       ([(''trend_change'', 432064089250857 / 2 ^ 47), (''trend_pct'', 5)], Some Stable)"
proof -
  have g: "row_get threshold_row ''early_mp'' = Some (round_double 61.4)"
    "row_get threshold_row ''late_mp'' = Some (round_double 64.47)"
    by (simp_all add: row_get_def threshold_row_def)
  have p: "round_double 61.4 > 0" unfolding early_double by simp
  have x: "(round_double 64.47 - round_double 61.4) / round_double 61.4 * 100 > 5"
    unfolding early_double late_double by simp
  have c: "fsub double_ops (round_double 64.47) (round_double 61.4) = 432064089250857 / 2 ^ 47"
    by (simp only: double_ops_simps threshold_change)
  have q: "fdiv double_ops (432064089250857 / 2 ^ 47) (round_double 61.4) =
           3602879701896397 / 2 ^ 56"
    by (simp only: double_ops_simps threshold_quotient)
  have m: "fmul double_ops (3602879701896397 / 2 ^ 56) 100 = 5"
    by (simp only: double_ops_simps threshold_pct)
  from trend_of_defined_row [OF g p, of double_ops]
  obtain tc tp lab where
    r0: "render_early_mid_late_trend double_ops (Some threshold_row) =
           ([(''trend_change'', tc), (''trend_pct'', tp)], Some lab)"
    and tc: "tc = fsub double_ops (round_double 64.47) (round_double 61.4)"
    and tp: "tp = fmul double_ops (fdiv double_ops tc (round_double 61.4)) 100"
    and st: "- 5 \<le> tp \<and> tp \<le> 5 \<longrightarrow> lab = Stable"
    by blast
  from tc c have tc': "tc = 432064089250857 / 2 ^ 47" by (simp only:)
  from tp have tp': "tp = 5" by (simp only: tc' q m)
  with st have "lab = Stable" by simp
  with r0 tc' tp'
  have r: "render_early_mid_late_trend double_ops (Some threshold_row) =
       ([(''trend_change'', 432064089250857 / 2 ^ 47), (''trend_pct'', 5)], Some Stable)"
    by (simp only:)
  from g p x r show ?thesis by (intro conjI)
qed

section \<open>The peak-data flag\<close>

text \<open>
  Claim C9. In every returned record \<open>has_peak_data\<close> holds exactly when one of the four
  window peaks is defined, and the overall peak value and the overall peak window are
  \<open>None\<close> exactly when \<open>has_peak_data\<close> is false.
\<close>

theorem has_peak_data_iff_some_window:
  "(has_peak_data (compute_player_mdp_metrics player_session_df) \<longleftrightarrow>
      (mdp_5 (compute_player_mdp_metrics player_session_df) \<noteq> None
       \<or> mdp_10 (compute_player_mdp_metrics player_session_df) \<noteq> None
       \<or> mdp_20 (compute_player_mdp_metrics player_session_df) \<noteq> None
       \<or> mdp_30 (compute_player_mdp_metrics player_session_df) \<noteq> None))
   \<and> (mdp_peak_value (compute_player_mdp_metrics player_session_df) = None \<longleftrightarrow>
        \<not> has_peak_data (compute_player_mdp_metrics player_session_df))
   \<and> (mdp_peak_window (compute_player_mdp_metrics player_session_df) = None \<longleftrightarrow>
        \<not> has_peak_data (compute_player_mdp_metrics player_session_df))"
  using has_peak_data_compute [of player_session_df]
    no_peak_data_no_peak [of player_session_df] peak_data_has_peak [of player_session_df]
  by blast

theorem has_peak_data_iff_some_window_witness:
  "has_peak_data (compute_player_mdp_metrics (Some short_session))
   \<and> mdp_5 (compute_player_mdp_metrics (Some short_session)) = Some 4
   \<and> mdp_peak_value (compute_player_mdp_metrics (Some short_session)) \<noteq> None
   \<and> mdp_peak_window (compute_player_mdp_metrics (Some short_session)) \<noteq> None
   \<and> \<not> has_peak_data (compute_player_mdp_metrics None)
   \<and> mdp_peak_value (compute_player_mdp_metrics None) = None
   \<and> mdp_peak_window (compute_player_mdp_metrics None) = None"
proof -
  have a: "mdp_5 (compute_player_mdp_metrics (Some short_session)) = Some 4"
    by (simp add: metrics_defs short_session_def)
  have b: "\<not> has_peak_data (compute_player_mdp_metrics None)"
    by (simp add: compute_player_mdp_metrics_def empty_metrics_def)
  from a have c: "mdp_5 (compute_player_mdp_metrics (Some short_session)) \<noteq> None" by simp
  note s = has_peak_data_iff_some_window [of "Some short_session"]
  note n = has_peak_data_iff_some_window [of None]
  from s c have d: "has_peak_data (compute_player_mdp_metrics (Some short_session))" by blast
  from s d have "mdp_peak_value (compute_player_mdp_metrics (Some short_session)) \<noteq> None"
    "mdp_peak_window (compute_player_mdp_metrics (Some short_session)) \<noteq> None" by blast+
  moreover from n b have "mdp_peak_value (compute_player_mdp_metrics None) = None"
    "mdp_peak_window (compute_player_mdp_metrics None) = None" by blast+
  ultimately show ?thesis using a b d by simp
qed

section \<open>Data coverage\<close>

text \<open>
  Claim C10. For a non-empty session the coverage percentage lies between 0 and 100. With
  more than one sample and equal first and last timestamps it is exactly 100, and without
  a timestamp column it is 100 as well.
\<close>

theorem coverage_in_range:
  assumes "n_rows df > 0"
  shows "0 \<le> coverage (data_quality (compute_player_mdp_metrics (Some df)))
       \<and> coverage (data_quality (compute_player_mdp_metrics (Some df))) \<le> 100
       \<and> (n_rows df > 1 \<longrightarrow>
            (\<forall>ts t. timestamp_column df = Some ts \<and> series_min ts = Some t
                     \<and> series_max ts = Some t \<longrightarrow>
               coverage (data_quality (compute_player_mdp_metrics (Some df))) = 100))
       \<and> (timestamp_column df = None \<longrightarrow>
            coverage (data_quality (compute_player_mdp_metrics (Some df))) = 100)"
proof -
  from assms have c: "coverage (data_quality (compute_player_mdp_metrics (Some df))) = pct_coverage df"
    by (simp add: coverage_compute)
  show ?thesis
    unfolding c
    using assms pct_coverage_bounds [of df] pct_coverage_zero_span [of df]
      pct_coverage_no_timestamp [of df]
    by blast
qed

theorem coverage_in_range_witness:
  "n_rows burst_session > 1
   \<and> timestamp_column burst_session = Some [Some 5000000000, Some 5000000000]
   \<and> series_min [Some 5000000000, Some (5000000000::int)] = Some 5000000000
   \<and> series_max [Some 5000000000, Some (5000000000::int)] = Some 5000000000
   \<and> coverage (data_quality (compute_player_mdp_metrics (Some burst_session))) = 100
   \<and> n_rows short_session > 0 \<and> timestamp_column short_session = None
   \<and> coverage (data_quality (compute_player_mdp_metrics (Some short_session))) = 100
   \<and> n_rows tied_session > 0
   \<and> coverage (data_quality (compute_player_mdp_metrics (Some tied_session))) = 75"
proof -
  have b: "n_rows burst_session > 0" "n_rows burst_session > 1"
    "timestamp_column burst_session = Some [Some 5000000000, Some 5000000000]"
    by (simp_all add: burst_session_def)
  have s: "n_rows short_session > 0" "timestamp_column short_session = None"
    by (simp_all add: short_session_def)
  have m: "series_min [Some 5000000000, Some (5000000000::int)] = Some 5000000000"
    "series_max [Some 5000000000, Some (5000000000::int)] = Some 5000000000"
    by simp_all
  have t: "n_rows tied_session > 0"
    "coverage (data_quality (compute_player_mdp_metrics (Some tied_session))) = 75"
    by (simp_all add: metrics_defs tied_session_def)
  have "coverage (data_quality (compute_player_mdp_metrics (Some burst_session))) = 100"
    using coverage_in_range [OF b(1)] b(2,3) m by blast
  moreover
  have "coverage (data_quality (compute_player_mdp_metrics (Some short_session))) = 100"
    using coverage_in_range [OF s(1)] s(2) by blast
  ultimately show ?thesis using b s m t by simp
qed

end
